theory Spec2Isabelle
  imports Complex_Main
begin

section \<open>JavaScript strings and values\<close>

text \<open>
  Strings are lists of 8-bit characters. \<open>toLowerCase\<close> maps \<open>A\<close>..\<open>Z\<close> to
  \<open>a\<close>..\<open>z\<close> and leaves every other character alone, which is what JavaScript does on
  ASCII text; every keyword the service compares against is ASCII. Numbers are modelled
  as reals (sizes and counts as naturals), so the arithmetic is the exact one, without
  the rounding of IEEE doubles.
\<close>

definition upperChars :: string where
  "upperChars = ''ABCDEFGHIJKLMNOPQRSTUVWXYZ''"

definition lowerChars :: string where
  "lowerChars = ''abcdefghijklmnopqrstuvwxyz''"

definition toLowerChar :: "char \<Rightarrow> char" where
  "toLowerChar c = (case map_of (zip upperChars lowerChars) c of Some l \<Rightarrow> l | None \<Rightarrow> c)"

definition toLowerCase :: "string \<Rightarrow> string" where
  "toLowerCase s = map toLowerChar s"

fun startsWith :: "string \<Rightarrow> string \<Rightarrow> bool" where
  "startsWith s [] = True"
| "startsWith [] (c # cs) = False"
| "startsWith (x # xs) (c # cs) = (x = c \<and> startsWith xs cs)"

text \<open>\<open>s.includes(sub)\<close> on strings: \<open>sub\<close> occurs in \<open>s\<close> as a contiguous run.\<close>

fun str_includes :: "string \<Rightarrow> string \<Rightarrow> bool" where
  "str_includes [] sub = (sub = [])"
| "str_includes (x # xs) sub = (startsWith (x # xs) sub \<or> str_includes xs sub)"

text \<open>
  The values that reach \<open>normalizeSkillName\<close> and that it returns. \<open>JObjectCtor\<close> is
  the function \<open>Object\<close>: the alias table is an object literal, so the lookup
  \<open>aliases['constructor']\<close> finds the inherited property \<open>constructor\<close>.
\<close>

datatype jsval = JUndefined | JNull | JString string | JObjectCtor

fun truthy :: "jsval \<Rightarrow> bool" where
  "truthy JUndefined = False"
| "truthy JNull = False"
| "truthy (JString s) = (s \<noteq> [])"
| "truthy JObjectCtor = True"

text \<open>An optional string field (\<open>None\<close> is \<open>undefined\<close> or \<open>null\<close>) used as a condition.\<close>

fun truthy_str :: "string option \<Rightarrow> bool" where
  "truthy_str None = False"
| "truthy_str (Some s) = (s \<noteq> [])"

section \<open>Item Classifier: difficulty\<close>

text \<open>The admissible values of the stored field \<open>issueSchema.difficulty\<close>.\<close>

definition difficulty_enum :: "string list" where
  "difficulty_enum = [''good-first-issue'', ''beginner'', ''intermediate'', ''advanced'']"

definition determineDifficulty :: "string \<Rightarrow> string list \<Rightarrow> string" where
  "determineDifficulty text labels =
     (if ''good first issue'' \<in> set labels \<or> ''good-first-issue'' \<in> set labels then ''beginner''
      else if ''help wanted'' \<in> set labels then ''intermediate''
      else let lowercaseText = toLowerCase text in
        if str_includes lowercaseText ''easy'' \<or> str_includes lowercaseText ''simple''
           \<or> str_includes lowercaseText ''beginner'' then ''beginner''
        else if str_includes lowercaseText ''advanced'' \<or> str_includes lowercaseText ''complex''
          then ''advanced''
        else ''intermediate'')"

section \<open>Match Scorer\<close>

record language_usage =
  lang_name :: string
  lang_percentage :: real

record user_skill =
  us_name :: string
  us_level :: string
  us_confidence :: real

text \<open>
  The fields of the user document the scorer reads. \<open>None\<close> is an absent field;
  \<open>u_difficultLevels\<close> is \<open>user.preferences?.difficultLevels\<close>.
\<close>

record user =
  u_languages :: "language_usage list option"
  u_skills :: "user_skill list option"
  u_difficultLevels :: "string list option"

text \<open>
  The fields of the issue document the scorer reads. \<open>i_language\<close> is
  \<open>issue.repository?.language\<close>; \<open>i_createdAt\<close> is the creation time in milliseconds.
\<close>

record issue =
  i_language :: "string option"
  i_requiredSkills :: "string list option"
  i_difficulty :: "string option"
  i_createdAt :: "int option"

text \<open>\<open>Array.prototype.find\<close>: the first element that satisfies the predicate.\<close>

fun find_first :: "('a \<Rightarrow> bool) \<Rightarrow> 'a list \<Rightarrow> 'a option" where
  "find_first p [] = None"
| "find_first p (x # xs) = (if p x then Some x else find_first p xs)"

definition calculateLanguageMatchScore :: "language_usage list option \<Rightarrow> string option \<Rightarrow> real" where
  "calculateLanguageMatchScore userLanguages issueLanguage =
     (case userLanguages of
        None \<Rightarrow> 0
      | Some langs \<Rightarrow>
          (case issueLanguage of
             None \<Rightarrow> 0
           | Some il \<Rightarrow>
               if il = [] then 0
               else (case find_first (\<lambda>lang. toLowerCase (lang_name lang) = toLowerCase il) langs of
                       None \<Rightarrow> 0
                     | Some matchingLang \<Rightarrow> min (lang_percentage matchingLang / 100) 1)))"

text \<open>
  \<open>new Map(userSkills.map(skill => [skill.name.toLowerCase(), skill]))\<close>: a later entry
  with the same key replaces an earlier one.
\<close>

definition skill_map :: "user_skill list \<Rightarrow> (string \<rightharpoonup> user_skill)" where
  "skill_map userSkills = map_of (rev (map (\<lambda>skill. (toLowerCase (us_name skill), skill)) userSkills))"

definition calculateSkillMatchScore :: "user_skill list option \<Rightarrow> string list option \<Rightarrow> real" where
  "calculateSkillMatchScore userSkills requiredSkills =
     (case userSkills of
        None \<Rightarrow> 0
      | Some us \<Rightarrow>
          (case requiredSkills of
             None \<Rightarrow> 0
           | Some rs \<Rightarrow>
               (let userSkillMap = skill_map us;
                    matchCount = length (filter (\<lambda>required. userSkillMap (toLowerCase required) \<noteq> None) rs)
                in if length rs > 0 then real matchCount / real (length rs) else 0)))"

definition calculateDifficultyMatchScore :: "string list option \<Rightarrow> string option \<Rightarrow> real" where
  "calculateDifficultyMatchScore userLevels issueDifficulty =
     (case userLevels of
        None \<Rightarrow> 0
      | Some levels \<Rightarrow>
          (case issueDifficulty of
             None \<Rightarrow> 0
           | Some d \<Rightarrow> if d = [] then 0 else if d \<in> set levels then 1 else 0))"

text \<open>The age of an item in days at the time \<open>now\<close> (\<open>Date.now()\<close>, in milliseconds).\<close>

definition ageInDays :: "int \<Rightarrow> int \<Rightarrow> real" where
  "ageInDays now createdAt = real_of_int (now - createdAt) / (1000 * 60 * 60 * 24)"

definition calculateFreshnessScore :: "int \<Rightarrow> int option \<Rightarrow> real" where
  "calculateFreshnessScore now createdAt =
     (case createdAt of
        None \<Rightarrow> 0
      | Some t \<Rightarrow> max 0 (1 - ageInDays now t / 30))"

text \<open>\<open>issue.requiredSkills?.length > 0\<close>, and the like, on an optional array.\<close>

fun nonEmptyArray :: "'a list option \<Rightarrow> bool" where
  "nonEmptyArray None = False"
| "nonEmptyArray (Some xs) = (length xs > 0)"

text \<open>\<open>user.preferences?.difficultLevels || []\<close>\<close>

fun orEmpty :: "'a list option \<Rightarrow> 'a list" where
  "orEmpty None = []"
| "orEmpty (Some xs) = xs"

definition calculateMatchScore :: "int \<Rightarrow> user \<Rightarrow> issue \<Rightarrow> real" where
  "calculateMatchScore now u i =
     (let totalScore = 0;
          maxScore = 0;
          (totalScore, maxScore) =
            (if truthy_str (i_language i)
             then (totalScore + calculateLanguageMatchScore (u_languages u) (i_language i) * 0.4,
                   maxScore + 0.4)
             else (totalScore, maxScore));
          (totalScore, maxScore) =
            (if nonEmptyArray (i_requiredSkills i)
             then (totalScore + calculateSkillMatchScore (u_skills u) (i_requiredSkills i) * 0.3,
                   maxScore + 0.3)
             else (totalScore, maxScore));
          (totalScore, maxScore) =
            (if truthy_str (i_difficulty i)
             then (totalScore + calculateDifficultyMatchScore
                                  (Some (orEmpty (u_difficultLevels u))) (i_difficulty i) * 0.2,
                   maxScore + 0.2)
             else (totalScore, maxScore));
          freshnessScore = calculateFreshnessScore now (i_createdAt i);
          totalScore = totalScore + freshnessScore * 0.1;
          maxScore = maxScore + 0.1
      in if maxScore > 0 then totalScore / maxScore else 0)"

text \<open>
  The formula of the specification: the weighted sum of the applicable factors, and the
  sum of their weights. A factor is applicable when the item has its input; the
  freshness factor always is.
\<close>

definition spec_weightedSum :: "int \<Rightarrow> user \<Rightarrow> issue \<Rightarrow> real" where
  "spec_weightedSum now u i =
     (if truthy_str (i_language i)
      then calculateLanguageMatchScore (u_languages u) (i_language i) * 0.4 else 0)
   + (if nonEmptyArray (i_requiredSkills i)
      then calculateSkillMatchScore (u_skills u) (i_requiredSkills i) * 0.3 else 0)
   + (if truthy_str (i_difficulty i)
      then calculateDifficultyMatchScore (Some (orEmpty (u_difficultLevels u))) (i_difficulty i) * 0.2
      else 0)
   + calculateFreshnessScore now (i_createdAt i) * 0.1"

definition spec_applicableWeights :: "issue \<Rightarrow> real" where
  "spec_applicableWeights i =
     (if truthy_str (i_language i) then 0.4 else 0)
   + (if nonEmptyArray (i_requiredSkills i) then 0.3 else 0)
   + (if truthy_str (i_difficulty i) then 0.2 else 0)
   + 0.1"

text \<open>
  The end-to-end scenario of the specification: a profile with the skill
  \<open>{python, advanced, 0.9}\<close>, the technology usage \<open>{python: 80%}\<close> and no preferred
  difficulty; an item in Python that requires Python, of intermediate difficulty,
  created at the time of the evaluation.
\<close>

definition scenario_profile :: user where
  "scenario_profile =
     \<lparr>u_languages = Some [\<lparr>lang_name = ''python'', lang_percentage = 80\<rparr>],
      u_skills = Some [\<lparr>us_name = ''python'', us_level = ''advanced'', us_confidence = 0.9\<rparr>],
      u_difficultLevels = Some []\<rparr>"

definition scenario_item :: "int \<Rightarrow> issue" where
  "scenario_item now =
     \<lparr>i_language = Some ''python'', i_requiredSkills = Some [''python''],
      i_difficulty = Some ''intermediate'', i_createdAt = Some now\<rparr>"

text \<open>An item with no language, no required skill and no difficulty.\<close>

definition bare_item :: "int \<Rightarrow> issue" where
  "bare_item createdAt =
     \<lparr>i_language = None, i_requiredSkills = Some [], i_difficulty = None,
      i_createdAt = Some createdAt\<rparr>"

section \<open>Skill Normalizer\<close>

definition isWhitespace :: "char \<Rightarrow> bool" where
  "isWhitespace c = (c \<in> set [CHR '' '', CHR 0x09, CHR 0x0A, CHR 0x0B, CHR 0x0C, CHR 0x0D])"

definition trim :: "string \<Rightarrow> string" where
  "trim s = rev (dropWhile isWhitespace (rev (dropWhile isWhitespace s)))"

text \<open>The characters the regular expression \<open>/[^a-z0-9\+\-\.]/g\<close> keeps.\<close>

definition allowedChar :: "char \<Rightarrow> bool" where
  "allowedChar c = (c \<in> set ''abcdefghijklmnopqrstuvwxyz0123456789+-.'')"

definition aliases :: "(string \<times> string) list" where
  "aliases =
     [(''js'', ''javascript''),
      (''ts'', ''typescript''),
      (''py'', ''python''),
      (''nodejs'', ''node.js''),
      (''reactjs'', ''react''),
      (''vuejs'', ''vue''),
      (''angularjs'', ''angular''),
      (''csharp'', ''c#''),
      (''cpp'', ''c++''),
      (''py3'', ''python''),
      (''jupyternotebook'', ''jupyter''),
      (''postgres'', ''postgresql''),
      (''mongo'', ''mongodb''),
      (''tf'', ''tensorflow''),
      (''pt'', ''pytorch''),
      (''ghactions'', ''github actions''),
      (''ci'', ''continuous integration''),
      (''cd'', ''continuous deployment'')]"

text \<open>
  \<open>aliases[normalized]\<close>: an own property of the table, else the one inherited property
  whose name survives the stripping (\<open>constructor\<close>), else \<open>undefined\<close>.
\<close>

definition aliases_get :: "string \<Rightarrow> jsval" where
  "aliases_get k =
     (case map_of aliases k of
        Some v \<Rightarrow> JString v
      | None \<Rightarrow> if k = ''constructor'' then JObjectCtor else JUndefined)"

definition normalizeSkillName :: "jsval \<Rightarrow> jsval" where
  "normalizeSkillName name =
     (case name of
        JString s \<Rightarrow>
          if s = [] then JNull
          else (let normalized = trim (toLowerCase s);
                    normalized = filter allowedChar normalized;
                    alias = aliases_get normalized
                in if truthy alias then alias else JString normalized)
      | _ \<Rightarrow> JNull)"

text \<open>
  The normalizer as the specification words it: lower-case, strip the characters outside
  \<open>[a-z0-9+\-.]\<close>, apply the alias table.
\<close>

definition normalize_spec :: "string \<Rightarrow> string" where
  "normalize_spec rawName =
     (let stripped = filter allowedChar (toLowerCase rawName)
      in case map_of aliases stripped of Some canonical \<Rightarrow> canonical | None \<Rightarrow> stripped)"

section \<open>Skill merge\<close>

record skill =
  sk_name :: jsval
  sk_level :: string
  sk_confidence :: real
  sk_source :: string

text \<open>
  A JavaScript \<open>Map\<close>: an association list in insertion order, without duplicate keys.
  \<open>set\<close> on a key that is present replaces the value where it stands.
\<close>

definition map_get :: "('k \<times> 'v) list \<Rightarrow> 'k \<Rightarrow> 'v option" where
  "map_get m k = map_of m k"

fun map_set :: "('k \<times> 'v) list \<Rightarrow> 'k \<Rightarrow> 'v \<Rightarrow> ('k \<times> 'v) list" where
  "map_set [] k v = [(k, v)]"
| "map_set ((k', v') # m) k v = (if k' = k then (k, v) # m else (k', v') # map_set m k v)"

definition map_values :: "('k \<times> 'v) list \<Rightarrow> 'v list" where
  "map_values m = map snd m"

text \<open>\<open>Array.prototype.indexOf\<close>: the first position of the element, or \<open>-1\<close>.\<close>

fun indexOf :: "'a list \<Rightarrow> 'a \<Rightarrow> int" where
  "indexOf [] x = -1"
| "indexOf (y # ys) x = (if y = x then 0 else (let r = indexOf ys x in if r < 0 then -1 else r + 1))"

definition levels :: "string list" where
  "levels = [''beginner'', ''intermediate'', ''advanced'', ''expert'']"

definition addSkill :: "(jsval \<times> skill) list \<Rightarrow> jsval \<Rightarrow> string \<Rightarrow> real \<Rightarrow> string \<Rightarrow> (jsval \<times> skill) list" where
  "addSkill skillsMap name level confidence source =
     (let normalizedName = normalizeSkillName name in
      if \<not> truthy normalizedName then skillsMap
      else (case map_get skillsMap normalizedName of
              Some existing \<Rightarrow>
                (let totalWeight = sk_confidence existing + confidence;
                     existing = existing\<lparr>sk_confidence := totalWeight / 2\<rparr>;
                     existing = (if indexOf levels level > indexOf levels (sk_level existing)
                                 then existing\<lparr>sk_level := level\<rparr> else existing)
                 in map_set skillsMap normalizedName existing)
            | None \<Rightarrow>
                map_set skillsMap normalizedName
                  \<lparr>sk_name = normalizedName, sk_level = level,
                   sk_confidence = confidence, sk_source = source\<rparr>))"

section \<open>Profile Skill Extractor\<close>

text \<open>
  The accumulated data of one language (\<open>currentLang\<close>), and an entry of the
  technology-usage output. The fallback entries of \<open>getDefaultSkillset\<close> carry no
  \<open>repoCount\<close> and no \<open>totalSize\<close>.
\<close>

record lang_entry =
  le_name :: string
  le_repoCount :: nat
  le_totalSize :: nat
  le_linesOfCode :: nat

record language_out =
  lo_name :: string
  lo_repoCount :: "nat option"
  lo_totalSize :: "nat option"
  lo_linesOfCode :: nat
  lo_percentage :: real

record extraction =
  e_skills :: "skill list"
  e_languages :: "language_out list"

text \<open>
  The inputs, as the source client hands them over. \<open>None\<close> is a field that is
  \<open>null\<close> or \<open>undefined\<close>; an element of the repository list may be \<open>null\<close>.
\<close>

record gh_user =
  gu_username :: string
  gu_bio :: "string option"

record repo =
  r_name :: string
  r_description :: "string option"
  r_language :: "string option"
  r_size :: "nat option"
  r_topics :: "string list option"

record commit =
  c_message :: "string option"

record payload =
  p_commits :: "commit list option"

record event =
  ev_type :: string
  ev_payload :: "payload option"
  ev_repo_name :: "string option"

text \<open>
  What a statement can throw: reading a property of \<open>undefined\<close> or \<open>null\<close>, or calling
  a method on it.
\<close>

datatype js_error = TypeError

text \<open>A loop whose body can throw: the first error leaves the loop.\<close>

fun foldE :: "('s \<Rightarrow> 'a \<Rightarrow> js_error + 's) \<Rightarrow> 's \<Rightarrow> 'a list \<Rightarrow> js_error + 's" where
  "foldE f s [] = Inr s"
| "foldE f s (x # xs) = (case f s x of Inl e \<Rightarrow> Inl e | Inr s' \<Rightarrow> foldE f s' xs)"

definition calculateLanguageLevel :: "lang_entry \<Rightarrow> string" where
  "calculateLanguageLevel languageData =
     (let repoCount = le_repoCount languageData; totalSize = le_totalSize languageData in
      if repoCount \<ge> 10 \<and> totalSize > 10000 then ''expert''
      else if repoCount \<ge> 5 \<and> totalSize > 5000 then ''advanced''
      else if repoCount \<ge> 3 \<and> totalSize > 1000 then ''intermediate''
      else ''beginner'')"

definition frameworks :: "string list" where
  "frameworks =
     [''react'', ''vue'', ''angular'', ''svelte'', ''nodejs'', ''express'', ''fastapi'',
      ''django'', ''flask'', ''rails'', ''spring'', ''laravel'', ''symfony'',
      ''tensorflow'', ''pytorch'', ''scikit-learn'', ''pandas'', ''numpy'',
      ''docker'', ''kubernetes'', ''aws'', ''azure'', ''gcp'', ''mongodb'',
      ''postgresql'', ''mysql'', ''redis'', ''elasticsearch'', ''graphql'',
      ''nextjs'', ''nuxtjs'', ''gatsby'', ''webpack'', ''vite'', ''tailwindcss'',
      ''typescript'', ''javascript'', ''java'', ''csharp'', ''c++'', ''go'', ''rust'',
      ''php'', ''ruby'', ''swift'', ''objective-c'', ''scala'', ''haskell'', ''matlab'',
      ''jupyter'', ''notebook'', ''firebase'', ''supabase'', ''rabbitmq'', ''celery'',
      ''airflow'', ''spark'', ''hadoop'', ''bigquery'', ''redshift'', ''snowflake'',
      ''heroku'', ''vercel'', ''netlify'', ''digitalocean'', ''linode'', ''openai'',
      ''huggingface'', ''langchain'', ''llama'', ''transformers'', ''grpc'', ''protobuf'',
      ''eslint'', ''prettier'', ''storybook'', ''jest'', ''mocha'', ''chai'', ''cypress'',
      ''playwright'', ''puppeteer'', ''selenium'', ''circleci'', ''github actions'',
      ''travis'', ''jenkins'', ''ansible'', ''terraform'', ''pulumi'', ''prometheus'',
      ''grafana'', ''sentry'', ''datadog'', ''newrelic'', ''rollbar'', ''logrocket'']"

definition extractFrameworksFromText :: "string \<Rightarrow> string list" where
  "extractFrameworksFromText text =
     (let lowerText = toLowerCase text in
      filter (\<lambda>framework. str_includes lowerText framework) frameworks)"

definition techKeywords :: "string list" where
  "techKeywords =
     [''api'', ''database'', ''frontend'', ''backend'', ''ui'', ''testing'',
      ''deployment'', ''security'', ''performance'', ''bug'', ''feature'']"

definition extractSkillsFromCommitMessage :: "string \<Rightarrow> string list" where
  "extractSkillsFromCommitMessage message =
     (let lowerMessage = toLowerCase message in
      filter (\<lambda>keyword. str_includes lowerMessage keyword) techKeywords)"

definition patterns :: "(string \<times> string list) list" where
  "patterns =
     [(''web'', [''html'', ''css'', ''javascript'']),
      (''api'', [''backend'', ''api'']),
      (''mobile'', [''mobile development'']),
      (''data'', [''data analysis'', ''python'']),
      (''ml'', [''machine learning'', ''python'']),
      (''bot'', [''automation'', ''scripting''])]"

definition inferSkillsFromRepoName :: "string \<Rightarrow> string list" where
  "inferSkillsFromRepoName repoName =
     (let lowerName = toLowerCase repoName in
      concat (map snd (filter (\<lambda>(pattern, relatedSkills). str_includes lowerName pattern) patterns)))"

text \<open>\<open>list.forEach(x => this.addSkill(skills, x, level, confidence, source))\<close>\<close>

definition addSkills ::
  "(jsval \<times> skill) list \<Rightarrow> string list \<Rightarrow> string \<Rightarrow> real \<Rightarrow> string \<Rightarrow> (jsval \<times> skill) list" where
  "addSkills skillsMap names level confidence source =
     foldl (\<lambda>m n. addSkill m (JString n) level confidence source) skillsMap names"

text \<open>The commits of a push event: \<open>commit.message.toLowerCase()\<close> throws without a message.\<close>

definition commitStep :: "(jsval \<times> skill) list \<Rightarrow> commit \<Rightarrow> js_error + (jsval \<times> skill) list" where
  "commitStep skills c =
     (case c_message c of
        None \<Rightarrow> Inl TypeError
      | Some message \<Rightarrow>
          Inr (addSkills skills (extractSkillsFromCommitMessage message)
                 ''intermediate'' 0.5 ''contribution''))"

text \<open>
  One event of \<open>analyzeContributions\<close>: \<open>event.payload.commits\<close> throws on a push
  event without a payload.
\<close>

definition eventStep :: "(jsval \<times> skill) list \<Rightarrow> event \<Rightarrow> js_error + (jsval \<times> skill) list" where
  "eventStep skills ev =
     (case (if ev_type ev = ''PushEvent''
            then (case ev_payload ev of
                    None \<Rightarrow> Inl TypeError
                  | Some p \<Rightarrow>
                      (case p_commits p of
                         None \<Rightarrow> Inr skills
                       | Some commits \<Rightarrow> foldE commitStep skills commits))
            else Inr skills) of
        Inl e \<Rightarrow> Inl e
      | Inr skills \<Rightarrow>
          (case ev_repo_name ev of
             None \<Rightarrow> Inr skills
           | Some repoName \<Rightarrow>
               if repoName = [] then Inr skills
               else Inr (addSkills skills (inferSkillsFromRepoName repoName)
                           ''beginner'' 0.4 ''contribution'')))"

definition analyzeContributions :: "event list \<Rightarrow> js_error + (jsval \<times> skill) list" where
  "analyzeContributions contributions = foldE eventStep [] contributions"

definition defaults :: "(string \<times> string \<times> real) list" where
  "defaults =
     [(''javascript'', ''beginner'', 0.5),
      (''html'', ''beginner'', 0.5),
      (''css'', ''beginner'', 0.5),
      (''git'', ''beginner'', 0.5)]"

definition addDefaultSkills :: "(jsval \<times> skill) list \<Rightarrow> (jsval \<times> skill) list" where
  "addDefaultSkills skillsMap =
     foldl (\<lambda>m (name, level, confidence). addSkill m (JString name) level confidence ''default'')
       skillsMap defaults"

definition getDefaultSkillset :: extraction where
  "getDefaultSkillset =
     \<lparr>e_skills =
        [\<lparr>sk_name = JString ''javascript'', sk_level = ''beginner'',
          sk_confidence = 0.5, sk_source = ''default''\<rparr>,
         \<lparr>sk_name = JString ''html'', sk_level = ''beginner'',
          sk_confidence = 0.5, sk_source = ''default''\<rparr>,
         \<lparr>sk_name = JString ''css'', sk_level = ''beginner'',
          sk_confidence = 0.5, sk_source = ''default''\<rparr>,
         \<lparr>sk_name = JString ''git'', sk_level = ''beginner'',
          sk_confidence = 0.5, sk_source = ''default''\<rparr>],
      e_languages =
        [\<lparr>lo_name = ''JavaScript'', lo_repoCount = None, lo_totalSize = None,
          lo_linesOfCode = 0, lo_percentage = 40\<rparr>,
         \<lparr>lo_name = ''HTML'', lo_repoCount = None, lo_totalSize = None,
          lo_linesOfCode = 0, lo_percentage = 30\<rparr>,
         \<lparr>lo_name = ''CSS'', lo_repoCount = None, lo_totalSize = None,
          lo_linesOfCode = 0, lo_percentage = 30\<rparr>]\<rparr>"

text \<open>\<open>levels[idx] || 'beginner'\<close>: an index outside the array reads \<open>undefined\<close>.\<close>

definition levelAt :: "int \<Rightarrow> string" where
  "levelAt idx = (if 0 \<le> idx \<and> idx < int (length levels) then levels ! nat idx else ''beginner'')"

definition normalizeSkillLevel :: "skill \<Rightarrow> string" where
  "normalizeSkillLevel sk =
     (let confidence = sk_confidence sk;
          level = sk_level sk;
          idx = indexOf levels level;
          idx = (if confidence < 0.3 then 0
                 else if confidence < 0.6 then min 1 idx
                 else if confidence > 0.9 then max idx 2
                 else idx)
      in levelAt idx)"

text \<open>One repository of the loop over \<open>repositories\<close>: \<open>(skills, languages)\<close> before and after.\<close>

definition repoStep ::
  "(jsval \<times> skill) list \<times> (string \<times> lang_entry) list \<Rightarrow> repo option
     \<Rightarrow> (jsval \<times> skill) list \<times> (string \<times> lang_entry) list" where
  "repoStep st ro =
     (case ro of
        None \<Rightarrow> st
      | Some rp \<Rightarrow>
          (let (skills, languages) = st;
               (skills, languages) =
                 (case r_language rp of
                    None \<Rightarrow> (skills, languages)
                  | Some language \<Rightarrow>
                      if language = [] then (skills, languages)
                      else (let lang = toLowerCase language;
                                currentLang =
                                  (case map_get languages lang of
                                     Some l \<Rightarrow> l
                                   | None \<Rightarrow> \<lparr>le_name = language, le_repoCount = 0,
                                               le_totalSize = 0, le_linesOfCode = 0\<rparr>);
                                currentLang = currentLang\<lparr>le_repoCount := le_repoCount currentLang + 1\<rparr>;
                                currentLang = currentLang\<lparr>le_totalSize :=
                                  le_totalSize currentLang + (case r_size rp of None \<Rightarrow> 0 | Some n \<Rightarrow> n)\<rparr>
                            in (addSkill skills (JString language) (calculateLanguageLevel currentLang)
                                  0.8 ''repository'',
                                map_set languages lang currentLang)));
               skills = (case r_topics rp of
                           None \<Rightarrow> skills
                         | Some topics \<Rightarrow> addSkills skills topics ''intermediate'' 0.6 ''repository'');
               text = r_name rp @ '' '' @ (case r_description rp of None \<Rightarrow> [] | Some d \<Rightarrow> d);
               frameworks = extractFrameworksFromText text;
               skills = addSkills skills frameworks ''intermediate'' 0.7 ''repository''
           in (skills, languages)))"

text \<open>Lines 162 to 168: the share of each language in the total size.\<close>

definition totalLanguageSize :: "(string \<times> lang_entry) list \<Rightarrow> nat" where
  "totalLanguageSize languages =
     foldl (\<lambda>sum lang. sum + le_totalSize lang) 0 (map_values languages)"

definition finalLanguages :: "(string \<times> lang_entry) list \<Rightarrow> language_out list" where
  "finalLanguages languages =
     map (\<lambda>lang. \<lparr>lo_name = le_name lang,
                   lo_repoCount = Some (le_repoCount lang),
                   lo_totalSize = Some (le_totalSize lang),
                   lo_linesOfCode = le_linesOfCode lang,
                   lo_percentage =
                     (if totalLanguageSize languages > 0
                      then (real (le_totalSize lang) / real (totalLanguageSize languages)) * 100
                      else 0)\<rparr>)
       (map_values languages)"

definition finalSkills :: "(jsval \<times> skill) list \<Rightarrow> skill list" where
  "finalSkills skills =
     map (\<lambda>sk. sk\<lparr>sk_level := normalizeSkillLevel sk, sk_confidence := min (sk_confidence sk) 1.0\<rparr>)
       (map_values skills)"

text \<open>
  The body of the \<open>try\<close> block of \<open>extractUserSkills\<close>. \<open>repositories.length\<close> is read
  for the log line before the test \<open>!repositories\<close>, so an absent list throws.
\<close>

definition extractUserSkills_try ::
  "gh_user \<Rightarrow> repo option list option \<Rightarrow> event list option \<Rightarrow> js_error + extraction" where
  "extractUserSkills_try usr repositories contributions =
     (case repositories of
        None \<Rightarrow> Inl TypeError
      | Some repos \<Rightarrow>
          (let skills = [];
               languages = [];
               skills = (if length repos = 0
                         then (case gu_bio usr of
                                 None \<Rightarrow> skills
                               | Some bio \<Rightarrow>
                                   if bio = [] then skills
                                   else addSkills skills (extractFrameworksFromText bio)
                                          ''beginner'' 0.6 ''profile'')
                         else skills);
               (skills, languages) = foldl repoStep (skills, languages) repos
           in (case (case contributions of
                       None \<Rightarrow> Inr skills
                     | Some events \<Rightarrow>
                         if length events > 0
                         then (case analyzeContributions events of
                                 Inl e \<Rightarrow> Inl e
                               | Inr contributionSkills \<Rightarrow>
                                   Inr (foldl (\<lambda>m (skillName, skillData).
                                                 addSkill m skillName (sk_level skillData)
                                                   (sk_confidence skillData) ''contribution'')
                                          skills contributionSkills))
                         else Inr skills) of
                 Inl e \<Rightarrow> Inl e
               | Inr skills \<Rightarrow>
                   (let skills = (if length skills = 0 then addDefaultSkills skills else skills)
                    in Inr \<lparr>e_skills = finalSkills skills,
                            e_languages = finalLanguages languages\<rparr>))))"

text \<open>
  \<open>extractUserSkills\<close> itself: the \<open>try\<close> block, and the \<open>catch\<close> block that returns
  \<open>getDefaultSkillset()\<close>. Like every function it either returns or throws.
\<close>

definition extractUserSkills ::
  "gh_user \<Rightarrow> repo option list option \<Rightarrow> event list option \<Rightarrow> js_error + extraction" where
  "extractUserSkills usr repositories contributions =
     (case extractUserSkills_try usr repositories contributions of
        Inr result \<Rightarrow> Inr result
      | Inl error \<Rightarrow> Inr getDefaultSkillset)"

section \<open>Item Classifier: required skills\<close>

text \<open>
  The regular expressions of \<open>keywordPatterns\<close> are alternatives of literal words with the
  flag \<open>i\<close>: \<open>pattern.test(text)\<close> holds when one of the words occurs in the text,
  whatever the case.
\<close>

definition keywordPatterns :: "(string list \<times> string) list" where
  "keywordPatterns =
     [([''react'', ''vue'', ''angular'', ''svelte''], ''frontend''),
      ([''node'', ''express'', ''django'', ''flask''], ''backend''),
      ([''mongodb'', ''mysql'', ''postgresql'', ''sqlite''], ''database''),
      ([''tensorflow'', ''pytorch'', ''scikit-learn'', ''keras''], ''machine learning''),
      ([''docker'', ''kubernetes'', ''aws'', ''azure'', ''gcp''], ''cloud''),
      ([''git'', ''github'', ''gitlab''], ''version control''),
      ([''scrum'', ''kanban'', ''agile''], ''project management''),
      ([''photoshop'', ''illustrator'', ''figma''], ''design''),
      ([''excel'', ''csv'', ''data analysis''], ''data analysis'')]"

definition regex_test :: "string list \<Rightarrow> string \<Rightarrow> bool" where
  "regex_test alternatives text = list_ex (\<lambda>alt. str_includes (toLowerCase text) alt) alternatives"

text \<open>
  An element of the array \<open>labels\<close>: a string, or an object with a field \<open>name\<close>.
  \<open>label.name\<close> of a string is \<open>undefined\<close>.
\<close>

datatype label_value = LabelString string | LabelObject "string option"

fun label_name :: "label_value \<Rightarrow> jsval" where
  "label_name (LabelString s) = JUndefined"
| "label_name (LabelObject None) = JUndefined"
| "label_name (LabelObject (Some n)) = JString n"

text \<open>\<open>Set.prototype.add\<close>: a \<open>Set\<close> lists its elements in insertion order.\<close>

definition set_add :: "'a list \<Rightarrow> 'a \<Rightarrow> 'a list" where
  "set_add xs x = (if x \<in> set xs then xs else xs @ [x])"

definition extractRequiredSkills :: "string \<Rightarrow> label_value list \<Rightarrow> string option \<Rightarrow> jsval list" where
  "extractRequiredSkills text labels repoLanguage =
     (let skills = [];
          skills = foldl (\<lambda>sk (pattern, skill).
                            if regex_test pattern text then set_add sk (JString skill) else sk)
                     skills keywordPatterns;
          skills = foldl (\<lambda>sk label.
                            let normalizedLabel = normalizeSkillName (label_name label)
                            in if truthy normalizedLabel then set_add sk normalizedLabel else sk)
                     skills labels;
          skills = (case repoLanguage of
                      None \<Rightarrow> skills
                    | Some l \<Rightarrow>
                        if l = [] then skills
                        else (let langSkill = normalizeSkillName (JString l)
                              in if truthy langSkill then set_add skills langSkill else skills))
      in skills)"

text \<open>\<open>text.split(' ').length\<close>: one more than the number of spaces.\<close>

definition estimateHours :: "string \<Rightarrow> string \<Rightarrow> string list \<Rightarrow> int" where
  "estimateHours difficulty text labels =
     (let baseHours = (if difficulty = ''beginner'' then 2
                       else if difficulty = ''advanced'' then 6
                       else if difficulty = ''expert'' then 8
                       else 4);
          textLength = int (length (filter (\<lambda>c. c = CHR '' '') text)) + 1;
          baseHours = (if textLength > 300 then baseHours + 2
                       else if textLength < 50 then baseHours - 1
                       else baseHours)
      in max 1 (min baseHours 24))"

record gh_label =
  gl_name :: "string option"

record gh_issue =
  gi_title :: string
  gi_body :: "string option"
  gi_labels :: "gh_label list option"

record analysis =
  a_difficulty :: string
  a_requiredSkills :: "jsval list"
  a_estimatedHours :: int

text \<open>
  \<open>issue.labels.map(l => l.name.toLowerCase())\<close>: throws when the issue has no labels
  array or a label has no name.
\<close>

definition lowerLabels :: "gh_issue \<Rightarrow> js_error + string list" where
  "lowerLabels issue =
     (case gi_labels issue of
        None \<Rightarrow> Inl TypeError
      | Some ls \<Rightarrow>
          (case those (map gl_name ls) of
             None \<Rightarrow> Inl TypeError
           | Some names \<Rightarrow> Inr (map toLowerCase names)))"

text \<open>
  \<open>analyzeIssueContent\<close>: the array \<open>labels\<close> it builds holds strings, and the same
  array goes to \<open>determineDifficulty\<close> and to \<open>extractRequiredSkills\<close>.
\<close>

definition analyzeIssueContent :: "gh_issue \<Rightarrow> string option \<Rightarrow> analysis" where
  "analyzeIssueContent issue repoLanguage =
     (let textContent = gi_title issue @ '' '' @ (case gi_body issue of None \<Rightarrow> [] | Some b \<Rightarrow> b)
      in (case lowerLabels issue of
            Inl error \<Rightarrow>
              \<lparr>a_difficulty = ''intermediate'', a_requiredSkills = [], a_estimatedHours = 4\<rparr>
          | Inr labels \<Rightarrow>
              (let difficulty = determineDifficulty textContent labels;
                   requiredSkills = extractRequiredSkills textContent (map LabelString labels) repoLanguage;
                   estimatedHours = estimateHours difficulty textContent labels
               in \<lparr>a_difficulty = difficulty, a_requiredSkills = requiredSkills,
                   a_estimatedHours = estimatedHours\<rparr>)))"

section \<open>Aggregation Pipeline: the run flag\<close>

text \<open>
  The aggregator object with the effects of its cycles. \<open>cycles\<close> holds the local
  variable \<open>retryCount\<close> of every call of \<open>aggregateIssues\<close> that has set the flag
  (line 47) and has not yet reached line 81. \<open>clientCalls\<close> counts the calls of the
  source client, \<open>storeWrites\<close> the writes to the store.
\<close>

record aggregator =
  isRunning :: bool
  cycles :: "nat list"
  clientCalls :: nat
  storeWrites :: nat

text \<open>The constructor.\<close>

definition initial :: aggregator where
  "initial = \<lparr>isRunning = False, cycles = [], clientCalls = 0, storeWrites = 0\<rparr>"

text \<open>
  One pass through the \<open>try\<close> block of \<open>aggregateIssues\<close>, as the source client and the
  store decide it: the calls of the source client it makes, the writes to the store, and
  whether it reaches \<open>break\<close> or throws.
\<close>

record attempt =
  at_clientCalls :: nat
  at_storeWrites :: nat
  at_ok :: bool

text \<open>
  The loop \<open>while (retryCount > 0)\<close>; \<open>env n\<close> is the attempt made when \<open>retryCount\<close>
  is \<open>n\<close>.
\<close>

fun retryLoop :: "nat \<Rightarrow> (nat \<Rightarrow> attempt) \<Rightarrow> aggregator \<Rightarrow> aggregator" where
  "retryLoop 0 env s = s"
| "retryLoop (Suc n) env s =
     (let a = env (Suc n);
          s = s\<lparr>clientCalls := clientCalls s + at_clientCalls a,
                storeWrites := storeWrites s + at_storeWrites a\<rparr>
      in if at_ok a then s else retryLoop n env s)"

text \<open>
  A call of \<open>aggregateIssues\<close> from its first line to its last, with no other call in
  between: it finds and leaves \<open>cycles\<close> as it is.
\<close>

definition aggregateIssues :: "(nat \<Rightarrow> attempt) \<Rightarrow> aggregator \<Rightarrow> aggregator" where
  "aggregateIssues env s =
     (if isRunning s then s
      else (let s = s\<lparr>isRunning := True\<rparr>;
                retryCount = 3;
                s = retryLoop retryCount env s
            in s\<lparr>isRunning := False\<rparr>))"

text \<open>
  JavaScript runs a function without interruption up to its next \<open>await\<close>. The steps
  of the system are therefore: a call of \<open>aggregateIssues\<close> (lines 42 to 48), and for
  a cycle in flight a call of the source client, a write to the store, the end of a
  successful attempt (\<open>break\<close>, then line 81) and a failed attempt (the \<open>catch\<close> block,
  then the next attempt or line 81).
\<close>

datatype action = Invoke | ClientCall nat | StoreWrite nat | Succeed nat | Fail nat

text \<open>Line 81, reached by the cycle at position \<open>i\<close>, whose call then returns.\<close>

definition finish :: "nat \<Rightarrow> aggregator \<Rightarrow> aggregator" where
  "finish i s = s\<lparr>isRunning := False, cycles := take i (cycles s) @ drop (Suc i) (cycles s)\<rparr>"

fun step :: "aggregator \<Rightarrow> action \<Rightarrow> aggregator option" where
  "step s Invoke =
     Some (if isRunning s then s else s\<lparr>isRunning := True, cycles := cycles s @ [3]\<rparr>)"
| "step s (ClientCall i) =
     (if i < length (cycles s) then Some (s\<lparr>clientCalls := clientCalls s + 1\<rparr>) else None)"
| "step s (StoreWrite i) =
     (if i < length (cycles s) then Some (s\<lparr>storeWrites := storeWrites s + 1\<rparr>) else None)"
| "step s (Succeed i) =
     (if i < length (cycles s) then Some (finish i s) else None)"
| "step s (Fail i) =
     (if i < length (cycles s)
      then (let retryCount = cycles s ! i - 1
            in if retryCount > 0 then Some (s\<lparr>cycles := (cycles s)[i := retryCount]\<rparr>)
               else Some (finish i s))
      else None)"

text \<open>A run of the system: \<open>None\<close> when an action is not enabled where it stands.\<close>

fun run :: "aggregator \<Rightarrow> action list \<Rightarrow> aggregator option" where
  "run s [] = Some s"
| "run s (a # as) = (case step s a of None \<Rightarrow> None | Some s' \<Rightarrow> run s' as)"

text \<open>The steps of one attempt, and of the loop from \<open>retryCount = n\<close> on.\<close>

definition attempt_actions :: "attempt \<Rightarrow> action list" where
  "attempt_actions a =
     replicate (at_clientCalls a) (ClientCall 0) @ replicate (at_storeWrites a) (StoreWrite 0)
       @ [if at_ok a then Succeed 0 else Fail 0]"

fun loop_actions :: "nat \<Rightarrow> (nat \<Rightarrow> attempt) \<Rightarrow> action list" where
  "loop_actions 0 env = []"
| "loop_actions (Suc n) env =
     attempt_actions (env (Suc n)) @ (if at_ok (env (Suc n)) then [] else loop_actions n env)"

section \<open>Notions used to state the properties\<close>

text \<open>
  The three sources of \<open>requiredSkills\<close> the specification names: the skills of the
  keyword categories found in the text, the normalized names of the labels, and the
  normalized primary language of the repository.
\<close>

definition keywordSkills :: "string \<Rightarrow> jsval set" where
  "keywordSkills text =
     {JString skill | pattern skill. (pattern, skill) \<in> set keywordPatterns \<and> regex_test pattern text}"

definition labelSkills :: "label_value list \<Rightarrow> jsval set" where
  "labelSkills labels = {n. \<exists>l \<in> set labels. n = normalizeSkillName (label_name l) \<and> truthy n}"

definition languageSkills :: "string option \<Rightarrow> jsval set" where
  "languageSkills repoLanguage =
     {n. \<exists>l. repoLanguage = Some l \<and> l \<noteq> [] \<and> n = normalizeSkillName (JString l) \<and> truthy n}"

text \<open>An issue with one label, and no keyword of a category in its text.\<close>

definition labelled_issue :: gh_issue where
  "labelled_issue =
     \<lparr>gi_title = ''Fix crash on start'', gi_body = None,
      gi_labels = Some [\<lparr>gl_name = Some ''Python''\<rparr>]\<rparr>"

text \<open>
  The size of an entry of the technology-usage output (0 for an entry without a size),
  and the total size of the output.
\<close>

definition lo_size :: "language_out \<Rightarrow> nat" where
  "lo_size l = (case lo_totalSize l of None \<Rightarrow> 0 | Some n \<Rightarrow> n)"

definition outputTotalSize :: "language_out list \<Rightarrow> nat" where
  "outputTotalSize ls = sum_list (map lo_size ls)"

text \<open>Inputs of the extractor: a user, two repositories, a push event without payload.\<close>

definition some_user :: gh_user where
  "some_user = \<lparr>gu_username = ''octocat'', gu_bio = None\<rparr>"

definition two_repos :: "repo option list" where
  "two_repos =
     [Some \<lparr>r_name = ''site'', r_description = None, r_language = Some ''JavaScript'',
            r_size = Some 300, r_topics = None\<rparr>,
      Some \<lparr>r_name = ''tool'', r_description = None, r_language = Some ''Python'',
            r_size = Some 100, r_topics = None\<rparr>]"

definition broken_event :: event where
  "broken_event = \<lparr>ev_type = ''PushEvent'', ev_payload = None, ev_repo_name = None\<rparr>"

text \<open>
  The invariant of the run flag: at most one cycle is in flight, the flag is set exactly
  while one is, and a cycle in flight has between one and three attempts left.
\<close>

definition flag_inv :: "aggregator \<Rightarrow> bool" where
  "flag_inv s =
     (length (cycles s) \<le> 1 \<and> (isRunning s \<longleftrightarrow> cycles s \<noteq> [])
      \<and> (\<forall>r \<in> set (cycles s). 1 \<le> r \<and> r \<le> 3))"

text \<open>The state in which one cycle has made its first call of the source client.\<close>

definition running_state :: aggregator where
  "running_state = \<lparr>isRunning = True, cycles = [3], clientCalls = 1, storeWrites = 0\<rparr>"

section \<open>The difficulty of an item\<close>

text \<open>
  C3, as amended. The label checks of \<open>determineDifficulty\<close> come first: an item
  labelled "good first issue", in that spelling or as "good-first-issue", is a beginner
  item whatever its text says, also when the text contains "advanced", and whatever its
  other labels are; an item without that label and labelled "help wanted" is
  intermediate; only an item with none of these labels is classified by its text, where
  "easy", "simple" or "beginner" give beginner, else "advanced" or "complex" give
  advanced, and the default is intermediate.
\<close>

theorem determineDifficulty_precedence:
  "(''good first issue'' \<in> set labels \<or> ''good-first-issue'' \<in> set labels
        \<longrightarrow> determineDifficulty text labels = ''beginner'')
   \<and> (''good first issue'' \<notin> set labels \<and> ''good-first-issue'' \<notin> set labels
        \<and> ''help wanted'' \<in> set labels
        \<longrightarrow> determineDifficulty text labels = ''intermediate'')
   \<and> (''good first issue'' \<notin> set labels \<and> ''good-first-issue'' \<notin> set labels
        \<and> ''help wanted'' \<notin> set labels
        \<longrightarrow> determineDifficulty text labels =
            (if str_includes (toLowerCase text) ''easy''
                \<or> str_includes (toLowerCase text) ''simple''
                \<or> str_includes (toLowerCase text) ''beginner'' then ''beginner''
             else if str_includes (toLowerCase text) ''advanced''
                     \<or> str_includes (toLowerCase text) ''complex'' then ''advanced''
             else ''intermediate''))"
  by (simp add: determineDifficulty_def Let_def)

lemma includes_advanced: "str_includes (toLowerCase ''An Advanced refactoring'') ''advanced''"
  by code_simp

lemma includes_nothing:
  "\<not> str_includes (toLowerCase ''An Advanced refactoring'') ''easy''
   \<and> \<not> str_includes (toLowerCase ''An Advanced refactoring'') ''simple''
   \<and> \<not> str_includes (toLowerCase ''An Advanced refactoring'') ''beginner''"
  by code_simp

theorem determineDifficulty_precedence_witness:
  "determineDifficulty ''An Advanced refactoring'' [''bug'', ''good first issue''] = ''beginner''
   \<and> determineDifficulty ''An Advanced refactoring'' [''good-first-issue''] = ''beginner''
   \<and> determineDifficulty ''An Advanced refactoring'' [''help wanted''] = ''intermediate''
   \<and> determineDifficulty ''An Advanced refactoring'' [''bug''] = ''advanced''"
  using determineDifficulty_precedence [of "[''bug'', ''good first issue'']" "''An Advanced refactoring''"]
    determineDifficulty_precedence [of "[''good-first-issue'']" "''An Advanced refactoring''"]
    determineDifficulty_precedence [of "[''help wanted'']" "''An Advanced refactoring''"]
    determineDifficulty_precedence [of "[''bug'']" "''An Advanced refactoring''"]
    includes_advanced includes_nothing
  by simp

text \<open>
  The claim as it stands names one spelling of the first label and has "help wanted"
  give intermediate. An item labelled "good-first-issue" and "help wanted" is a beginner
  item.
\<close>

theorem help_wanted_not_intermediate:
  "determineDifficulty ''Update the docs'' [''good-first-issue'', ''help wanted''] = ''beginner''
   \<and> determineDifficulty ''Update the docs'' [''good-first-issue'', ''help wanted'']
        \<noteq> ''intermediate''"
  by (simp add: determineDifficulty_def)

text \<open>
  C10, as amended. \<open>determineDifficulty\<close> returns beginner, intermediate or advanced,
  never good-first-issue or expert. Of these two only good-first-issue is a value the
  stored field \<open>difficulty\<close> admits: expert is not in its enumeration.
\<close>

theorem determineDifficulty_values:
  "determineDifficulty text labels \<in> {''beginner'', ''intermediate'', ''advanced''}
   \<and> determineDifficulty text labels \<noteq> ''good-first-issue''
   \<and> determineDifficulty text labels \<noteq> ''expert''
   \<and> ''good-first-issue'' \<in> set difficulty_enum
   \<and> ''expert'' \<notin> set difficulty_enum"
  by (simp add: determineDifficulty_def Let_def difficulty_enum_def)

text \<open>The claim as it stands counts expert among the admissible values of the field.\<close>

theorem expert_not_admissible:
  "\<not> (''good-first-issue'' \<in> set difficulty_enum \<and> ''expert'' \<in> set difficulty_enum)"
  by (simp add: difficulty_enum_def)

section \<open>The match score\<close>

lemma find_first_mem: "find_first p xs = Some x \<Longrightarrow> x \<in> set xs"
  by (induction xs) (auto split: if_splits)

lemma languageScore_upper: "calculateLanguageMatchScore ls il \<le> 1"
  by (simp add: calculateLanguageMatchScore_def split: option.splits)

lemma languageScore_lower:
  assumes "\<And>langs l. ls = Some langs \<Longrightarrow> l \<in> set langs \<Longrightarrow> 0 \<le> lang_percentage l"
  shows "0 \<le> calculateLanguageMatchScore ls il"
  using assms
  by (auto simp: calculateLanguageMatchScore_def dest: find_first_mem split: option.splits)

lemma skillScore_bounds:
  "0 \<le> calculateSkillMatchScore us rs \<and> calculateSkillMatchScore us rs \<le> 1"
proof -
  have "real (length (filter p xs)) \<le> real (length xs)" for p and xs :: "string list"
    by simp
  then show ?thesis
    by (auto simp: calculateSkillMatchScore_def Let_def divide_le_eq_1 split: option.splits)
qed

lemma difficultyScore_bounds:
  "0 \<le> calculateDifficultyMatchScore ls d \<and> calculateDifficultyMatchScore ls d \<le> 1"
  by (simp add: calculateDifficultyMatchScore_def split: option.splits)

lemma freshness_lower: "0 \<le> calculateFreshnessScore now c"
  by (simp add: calculateFreshnessScore_def split: option.splits)

lemma freshness_upper:
  assumes "\<And>t. c = Some t \<Longrightarrow> t \<le> now"
  shows "calculateFreshnessScore now c \<le> 1"
  using assms
  by (auto simp: calculateFreshnessScore_def ageInDays_def split: option.splits)

lemma score_formula:
  "calculateMatchScore now u i = spec_weightedSum now u i / spec_applicableWeights i"
  by (simp add: calculateMatchScore_def spec_weightedSum_def spec_applicableWeights_def Let_def)

lemma weights_pos: "0 < spec_applicableWeights i"
  by (simp add: spec_applicableWeights_def)

lemma sum_bounds:
  assumes "\<And>langs l. u_languages u = Some langs \<Longrightarrow> l \<in> set langs \<Longrightarrow> 0 \<le> lang_percentage l"
    and "\<And>t. i_createdAt i = Some t \<Longrightarrow> t \<le> now"
  shows "0 \<le> spec_weightedSum now u i \<and> spec_weightedSum now u i \<le> spec_applicableWeights i"
proof -
  let ?l = "calculateLanguageMatchScore (u_languages u) (i_language i)"
  let ?s = "calculateSkillMatchScore (u_skills u) (i_requiredSkills i)"
  let ?d = "calculateDifficultyMatchScore (Some (orEmpty (u_difficultLevels u))) (i_difficulty i)"
  let ?f = "calculateFreshnessScore now (i_createdAt i)"
  have l: "0 \<le> ?l" "?l \<le> 1"
    using languageScore_lower [of "u_languages u"] assms(1) languageScore_upper by auto
  have s: "0 \<le> ?s" "?s \<le> 1"
    using skillScore_bounds by auto
  have d: "0 \<le> ?d" "?d \<le> 1"
    using difficultyScore_bounds by auto
  have f: "0 \<le> ?f" "?f \<le> 1"
    using freshness_lower freshness_upper [of "i_createdAt i" now] assms(2) by auto
  show ?thesis
    using l s d f by (simp add: spec_weightedSum_def spec_applicableWeights_def)
qed

lemma freshness_only:
  assumes "\<not> truthy_str (i_language i)" "\<not> nonEmptyArray (i_requiredSkills i)"
    "\<not> truthy_str (i_difficulty i)"
  shows "calculateMatchScore now u i = calculateFreshnessScore now (i_createdAt i)"
  using assms by (simp add: calculateMatchScore_def Let_def)

text \<open>
  C1, as amended. For a profile whose usage percentages are not negative and an item
  that was not created after the time of the evaluation, the score lies between 0 and 1.
  For every profile and item the score is the weighted sum of the applicable factors
  divided by the sum of their weights: a factor whose input the item lacks (no
  repository language, no required skill, no difficulty) adds neither to the sum nor
  to the divisor. The freshness factor always applies, so the divisor is positive and
  the fallback 0 is never taken. For an item to which only the freshness factor applies
  the score is the freshness value \<open>max 0 (1 - ageInDays / 30)\<close>.
\<close>

theorem calculateMatchScore_bounds:
  assumes "\<forall>langs. u_languages u = Some langs \<longrightarrow> (\<forall>l \<in> set langs. 0 \<le> lang_percentage l)"
    and "\<forall>t. i_createdAt i = Some t \<longrightarrow> t \<le> now"
  shows "0 \<le> calculateMatchScore now u i \<and> calculateMatchScore now u i \<le> 1
    \<and> (\<forall>now' u'. calculateMatchScore now' u' i = spec_weightedSum now' u' i / spec_applicableWeights i)
    \<and> 0 < spec_applicableWeights i
    \<and> (\<forall>now' u' t. \<not> truthy_str (i_language i) \<and> \<not> nonEmptyArray (i_requiredSkills i)
          \<and> \<not> truthy_str (i_difficulty i) \<and> i_createdAt i = Some t
          \<longrightarrow> calculateMatchScore now' u' i = max 0 (1 - ageInDays now' t / 30))"
proof -
  have sb: "0 \<le> spec_weightedSum now u i \<and> spec_weightedSum now u i \<le> spec_applicableWeights i"
    using assms by (intro sum_bounds) auto
  have "0 \<le> calculateMatchScore now u i \<and> calculateMatchScore now u i \<le> 1"
    using sb weights_pos [of i] by (simp add: score_formula divide_le_eq_1)
  moreover have "\<forall>now' u' t. \<not> truthy_str (i_language i) \<and> \<not> nonEmptyArray (i_requiredSkills i)
          \<and> \<not> truthy_str (i_difficulty i) \<and> i_createdAt i = Some t
          \<longrightarrow> calculateMatchScore now' u' i = max 0 (1 - ageInDays now' t / 30)"
    by (simp add: freshness_only calculateFreshnessScore_def)
  ultimately show ?thesis
    using score_formula weights_pos by blast
qed

theorem calculateMatchScore_bounds_witness:
  "0 \<le> calculateMatchScore 1296000000 scenario_profile (bare_item 0)
   \<and> calculateMatchScore 1296000000 scenario_profile (bare_item 0) \<le> 1
   \<and> calculateMatchScore 1296000000 scenario_profile (bare_item 0) = 1 / 2"
proof -
  have percentages: "\<forall>langs. u_languages scenario_profile = Some langs
      \<longrightarrow> (\<forall>l \<in> set langs. 0 \<le> lang_percentage l)"
    by (simp add: scenario_profile_def)
  have created: "\<forall>t. i_createdAt (bare_item 0) = Some t \<longrightarrow> t \<le> 1296000000"
    by (simp add: bare_item_def)
  have val: "calculateMatchScore 1296000000 scenario_profile (bare_item 0) = 1 / 2"
    by (simp add: calculateMatchScore_def Let_def calculateFreshnessScore_def ageInDays_def
        bare_item_def)
  from calculateMatchScore_bounds [OF percentages created]
  have "0 \<le> calculateMatchScore 1296000000 scenario_profile (bare_item 0)
      \<and> calculateMatchScore 1296000000 scenario_profile (bare_item 0) \<le> 1"
    by blast
  with val show ?thesis by simp
qed

text \<open>
  The claim as it stands holds for every item. An item created one day after the time
  of the evaluation has the freshness value \<open>31 / 30\<close>, and that is its score.
\<close>

theorem calculateMatchScore_future_item:
  "calculateMatchScore 0 scenario_profile (bare_item 86400000) = 31 / 30
   \<and> \<not> calculateMatchScore 0 scenario_profile (bare_item 86400000) \<le> 1"
  by (simp add: calculateMatchScore_def Let_def calculateFreshnessScore_def ageInDays_def
      bare_item_def)

text \<open>
  C2, as amended. In the end-to-end scenario the language factor is 0.8, the skill
  factor 1, the difficulty factor 0 and the freshness factor 1, all four factors apply,
  and the score is \<open>(0.8 * 0.4 + 1 * 0.3 + 0 * 0.2 + 1 * 0.1) / 1 = 0.72\<close>.
\<close>

theorem scenario_score:
  "calculateLanguageMatchScore (u_languages scenario_profile) (i_language (scenario_item now)) = 0.8
   \<and> calculateSkillMatchScore (u_skills scenario_profile) (i_requiredSkills (scenario_item now)) = 1
   \<and> calculateDifficultyMatchScore (Some (orEmpty (u_difficultLevels scenario_profile)))
        (i_difficulty (scenario_item now)) = 0
   \<and> calculateFreshnessScore now (i_createdAt (scenario_item now)) = 1
   \<and> spec_applicableWeights (scenario_item now) = 1
   \<and> calculateMatchScore now scenario_profile (scenario_item now) = 0.72"
  by (simp add: calculateMatchScore_def scenario_profile_def scenario_item_def Let_def
      calculateLanguageMatchScore_def calculateSkillMatchScore_def skill_map_def
      calculateDifficultyMatchScore_def calculateFreshnessScore_def ageInDays_def
      spec_applicableWeights_def)

text \<open>The claim as it stands gives 0.62 for the sum \<open>0.32 + 0.3 + 0 + 0.1\<close>.\<close>

theorem scenario_score_not_062:
  "calculateMatchScore 0 scenario_profile (scenario_item 0) \<noteq> 0.62"
  by (simp add: calculateMatchScore_def scenario_profile_def scenario_item_def Let_def
      calculateLanguageMatchScore_def calculateSkillMatchScore_def skill_map_def
      calculateDifficultyMatchScore_def calculateFreshnessScore_def ageInDays_def)

section \<open>The normalizer\<close>

lemma filter_dropWhile_disjoint:
  "(\<And>x. q x \<Longrightarrow> \<not> p x) \<Longrightarrow> filter p (dropWhile q xs) = filter p xs"
  by (induction xs) auto

lemma whitespace_not_allowed: "isWhitespace c \<Longrightarrow> \<not> allowedChar c"
  by (auto simp: isWhitespace_def allowedChar_def)

lemma filter_trim: "filter allowedChar (trim s) = filter allowedChar s"
proof -
  have "filter allowedChar (trim s)
      = rev (filter allowedChar (dropWhile isWhitespace (rev (dropWhile isWhitespace s))))"
    by (simp add: trim_def rev_filter)
  also have "\<dots> = rev (filter allowedChar (rev (dropWhile isWhitespace s)))"
    by (simp add: filter_dropWhile_disjoint whitespace_not_allowed)
  also have "\<dots> = filter allowedChar (dropWhile isWhitespace s)"
    by (simp add: rev_filter)
  also have "\<dots> = filter allowedChar s"
    by (simp add: filter_dropWhile_disjoint whitespace_not_allowed)
  finally show ?thesis .
qed

lemma alias_values_nonempty: "map_of aliases k = Some v \<Longrightarrow> v \<noteq> []"
  by (auto simp: aliases_def split: if_splits)

lemma constructor_no_alias: "map_of aliases ''constructor'' = None"
  by (simp add: aliases_def)

lemma normalize_string:
  assumes "name \<noteq> []"
  shows "normalizeSkillName (JString name) =
           (if filter allowedChar (toLowerCase name) = ''constructor'' then JObjectCtor
            else JString (normalize_spec name))"
  using assms
  by (auto simp: normalizeSkillName_def Let_def filter_trim aliases_get_def normalize_spec_def
      constructor_no_alias dest: alias_values_nonempty split: option.splits)

lemma normalize_null_iff: "normalizeSkillName (JString name) = JNull \<longleftrightarrow> name = []"
  by (cases "name = []") (simp_all add: normalize_string, simp add: normalizeSkillName_def)

lemma normalize_JS: "normalizeSkillName (JString ''JS'') = JString ''javascript''"
  by code_simp

lemma normalize_js: "normalizeSkillName (JString ''js'') = JString ''javascript''"
  by code_simp

lemma normalize_blank: "normalizeSkillName (JString ''!? '') = JString []"
  by code_simp

text \<open>
  C5, as amended. \<open>normalizeSkillName\<close> lower-cases its input, strips every character
  outside \<open>[a-z0-9+\-.]\<close> and applies the alias table, so "JS" and "js" both give
  "javascript". It returns \<open>null\<close> for the empty string and for a value that is not a
  string, and for no other string. A string that is not empty and loses all its
  characters gives the empty string; callers test the result for falsiness and skip
  both. (The text "constructor" is left out: its lookup in the alias object finds an
  inherited property.)
\<close>

theorem normalizeSkillName_contract:
  "normalizeSkillName (JString ''JS'') = JString ''javascript''
   \<and> normalizeSkillName (JString ''js'') = JString ''javascript''
   \<and> normalizeSkillName (JString []) = JNull
   \<and> normalizeSkillName JUndefined = JNull
   \<and> normalizeSkillName JNull = JNull
   \<and> (normalizeSkillName (JString name) = JNull \<longleftrightarrow> name = [])
   \<and> (name \<noteq> [] \<and> filter allowedChar (toLowerCase name) \<noteq> ''constructor''
        \<longrightarrow> normalizeSkillName (JString name) = JString (normalize_spec name))
   \<and> (name \<noteq> [] \<and> filter allowedChar (toLowerCase name) = []
        \<longrightarrow> normalizeSkillName (JString name) = JString []
            \<and> \<not> truthy (normalizeSkillName (JString name)))"
proof -
  have "normalizeSkillName (JString []) = JNull" "normalizeSkillName JUndefined = JNull"
    "normalizeSkillName JNull = JNull"
    by (simp_all add: normalizeSkillName_def)
  moreover have "name \<noteq> [] \<and> filter allowedChar (toLowerCase name) = []
        \<longrightarrow> normalizeSkillName (JString name) = JString []
            \<and> \<not> truthy (normalizeSkillName (JString name))"
    by (simp add: normalize_string normalize_spec_def aliases_def)
  ultimately show ?thesis
    using normalize_JS normalize_js normalize_null_iff [of name] normalize_string [of name]
    by simp
qed

lemma strip_React: "filter allowedChar (toLowerCase ''React JS'') = ''reactjs''"
  by code_simp

lemma normalize_spec_React: "normalize_spec ''React JS'' = ''react''"
  by code_simp

theorem normalizeSkillName_contract_witness:
  "normalizeSkillName (JString ''React JS'') = JString ''react''
   \<and> normalizeSkillName (JString ''React JS'') \<noteq> JNull"
  using normalizeSkillName_contract [of "''React JS''"] strip_React normalize_spec_React
  by simp

text \<open>
  The claim as it stands has \<open>null\<close> for every input that holds no skill name, and never
  the empty string.
\<close>

theorem normalizeSkillName_empty_string:
  "normalizeSkillName (JString ''!? '') = JString []
   \<and> normalizeSkillName (JString ''!? '') \<noteq> JNull"
  using normalize_blank by simp

section \<open>The merge of a skill\<close>

lemma map_get_set_same: "map_get (map_set m k v) k = Some v"
  by (induction m) (auto simp: map_get_def)

lemma addSkill_existing:
  assumes "normalizeSkillName name = key" "truthy key" "map_get skillsMap key = Some existing"
  shows "map_get (addSkill skillsMap name level confidence source) key =
           Some (existing\<lparr>sk_confidence := (sk_confidence existing + confidence) / 2,
                          sk_level := (if indexOf levels level > indexOf levels (sk_level existing)
                                       then level else sk_level existing)\<rparr>)"
  using assms by (simp add: addSkill_def Let_def map_get_set_same)

lemma levels_order:
  "indexOf levels ''beginner'' = 0 \<and> indexOf levels ''intermediate'' = 1
   \<and> indexOf levels ''advanced'' = 2 \<and> indexOf levels ''expert'' = 3"
  by (simp add: levels_def)

text \<open>
  C6. When the map already holds an entry under the normalized name, \<open>addSkill\<close> sets its
  confidence to the mean of the old and the new confidence and its level to the higher
  of the old and the new level, in the order beginner, intermediate, advanced, expert
  of the array \<open>levels\<close>. The level of the entry never goes down, whatever the
  confidence of the new observation.
\<close>

theorem addSkill_merge:
  assumes "normalizeSkillName name = key" and "truthy key"
    and "map_get skillsMap key = Some existing"
  shows "\<exists>merged. map_get (addSkill skillsMap name level confidence source) key = Some merged
    \<and> sk_confidence merged = (sk_confidence existing + confidence) / 2
    \<and> indexOf levels (sk_level merged)
        = max (indexOf levels (sk_level existing)) (indexOf levels level)
    \<and> (sk_level merged = sk_level existing \<or> sk_level merged = level)
    \<and> indexOf levels (sk_level existing) \<le> indexOf levels (sk_level merged)
    \<and> indexOf levels ''beginner'' < indexOf levels ''intermediate''
    \<and> indexOf levels ''intermediate'' < indexOf levels ''advanced''
    \<and> indexOf levels ''advanced'' < indexOf levels ''expert''"
  using addSkill_existing [OF assms, of level confidence source] levels_order
  by auto

lemma normalize_Python: "normalizeSkillName (JString ''Python'') = JString ''python''"
  by code_simp

theorem addSkill_merge_witness:
  "\<exists>merged.
     map_get (addSkill [(JString ''python'',
                \<lparr>sk_name = JString ''python'', sk_level = ''advanced'',
                 sk_confidence = 0.6, sk_source = ''repository''\<rparr>)]
              (JString ''Python'') ''beginner'' 1 ''manual'') (JString ''python'') = Some merged
     \<and> sk_confidence merged = 0.8 \<and> sk_level merged = ''advanced''"
proof -
  let ?old = "\<lparr>sk_name = JString ''python'', sk_level = ''advanced'',
                sk_confidence = 0.6, sk_source = ''repository''\<rparr>"
  have k: "truthy (JString ''python'')" by simp
  have g: "map_get [(JString ''python'', ?old)] (JString ''python'') = Some ?old"
    by (simp add: map_get_def)
  from addSkill_merge [OF normalize_Python k g, of "''beginner''" 1 "''manual''"]
  show ?thesis
    by (auto simp: levels_def)
qed

section \<open>The required skills of an item\<close>

lemma set_set_add: "set (set_add xs x) = insert x (set xs)"
  by (auto simp: set_add_def)

lemma distinct_set_add: "distinct xs \<Longrightarrow> distinct (set_add xs x)"
  by (simp add: set_add_def)

lemma foldl_set_add_set:
  assumes "\<And>sk x. g sk x = (if P x then set_add sk (f x) else sk)"
  shows "set (foldl g acc xs) = set acc \<union> f ` {x \<in> set xs. P x}"
  by (induction xs arbitrary: acc) (auto simp: assms set_set_add)

lemma foldl_set_add_distinct:
  assumes "\<And>sk x. g sk x = (if P x then set_add sk (f x) else sk)"
  shows "distinct acc \<Longrightarrow> distinct (foldl g acc xs)"
  by (induction xs arbitrary: acc) (auto simp: assms distinct_set_add)

text \<open>
  What \<open>extractRequiredSkills\<close> computes: the union, without duplicates, of the keyword
  skills, of the normalized property \<open>name\<close> of each element of \<open>labels\<close>, and of the
  normalized language.
\<close>

lemma extractRequiredSkills_union:
  "set (extractRequiredSkills text labels repoLanguage)
     = keywordSkills text \<union> labelSkills labels \<union> languageSkills repoLanguage
   \<and> distinct (extractRequiredSkills text labels repoLanguage)"
proof -
  let ?g1 = "\<lambda>sk (pattern, skill).
               if regex_test pattern text then set_add sk (JString skill) else sk"
  let ?g2 = "\<lambda>sk label. let normalizedLabel = normalizeSkillName (label_name label)
                          in if truthy normalizedLabel then set_add sk normalizedLabel else sk"
  let ?s1 = "foldl ?g1 [] keywordPatterns"
  let ?s2 = "foldl ?g2 ?s1 labels"
  have g1: "?g1 sk x = (if (\<lambda>(pattern, skill). regex_test pattern text) x
                        then set_add sk ((\<lambda>(pattern, skill). JString skill) x) else sk)" for sk x
    by (simp split: prod.splits)
  have g2: "?g2 sk l = (if truthy (normalizeSkillName (label_name l))
                        then set_add sk (normalizeSkillName (label_name l)) else sk)" for sk l
    by (simp add: Let_def)
  have s1: "set ?s1 = keywordSkills text"
    unfolding foldl_set_add_set [of ?g1, OF g1] by (auto simp: keywordSkills_def)
  have d1: "distinct ?s1"
    by (rule foldl_set_add_distinct [of ?g1, OF g1]) simp
  have s2: "set ?s2 = set ?s1 \<union> labelSkills labels"
    unfolding foldl_set_add_set [of ?g2, OF g2] by (auto simp: labelSkills_def)
  have d2: "distinct ?s2"
    by (rule foldl_set_add_distinct [of ?g2, OF g2]) (rule d1)
  show ?thesis
    using s1 s2 d2
    by (auto simp: extractRequiredSkills_def Let_def languageSkills_def set_set_add
        distinct_set_add split: option.splits)
qed

lemma strings_have_no_name:
  "foldl (\<lambda>sk label. let normalizedLabel = normalizeSkillName (label_name label)
                      in if truthy normalizedLabel then set_add sk normalizedLabel else sk)
     skills (map LabelString names) = skills"
  by (induction names) (simp_all add: normalizeSkillName_def)

lemma labelled_issue_skills: "a_requiredSkills (analyzeIssueContent labelled_issue None) = []"
  by code_simp

lemma python_normalizable: "normalizeSkillName (JString ''python'') = JString ''python''"
  by code_simp

text \<open>
  C7. The required skills are meant to be the union of the keyword skills, the
  normalized labels and the normalized language. \<open>analyzeIssueContent\<close> hands
  \<open>extractRequiredSkills\<close> the label names as strings, and \<open>extractRequiredSkills\<close> reads
  the property \<open>name\<close> of each of them, which a string lacks: no label reaches the
  result. The issue labelled "Python", with no keyword in its text and no repository
  language, gets no required skill, although the label is normalizable.
\<close>

theorem analyzeIssueContent_ignores_labels:
  "a_requiredSkills (analyzeIssueContent labelled_issue None) = []
   \<and> normalizeSkillName (JString ''python'') = JString ''python''
   \<and> extractRequiredSkills text (map LabelString names) repoLanguage
       = extractRequiredSkills text [] repoLanguage"
  using labelled_issue_skills python_normalizable
  by (simp add: extractRequiredSkills_def strings_have_no_name)

section \<open>The failure mode of the extractor\<close>

lemma default_is_step_4: "e_skills getDefaultSkillset = finalSkills (addDefaultSkills [])"
  by (simp add: getDefaultSkillset_def finalSkills_def addDefaultSkills_def defaults_def
      addSkill_def normalizeSkillName_def Let_def trim_def toLowerCase_def toLowerChar_def
      upperChars_def lowerChars_def isWhitespace_def allowedChar_def aliases_get_def
      aliases_def map_get_def map_values_def normalizeSkillLevel_def levels_def levelAt_def)

lemma absent_repositories: "extractUserSkills_try some_user None None = Inl TypeError"
  by (simp add: extractUserSkills_try_def)

lemma broken_event_throws:
  "extractUserSkills_try some_user (Some []) (Some [broken_event]) = Inl TypeError"
  by code_simp

text \<open>
  C8. \<open>extractUserSkills\<close> returns a result for every input and never throws. When its
  \<open>try\<close> block throws, the result is the fixed default skillset, whose skills are
  those of step 4: javascript, html, css and git, each at beginner and 0.5.
\<close>

theorem extractUserSkills_never_throws:
  "(\<exists>result. extractUserSkills usr repositories contributions = Inr result)
   \<and> (\<forall>e. extractUserSkills_try usr repositories contributions = Inl e
         \<longrightarrow> extractUserSkills usr repositories contributions = Inr getDefaultSkillset)
   \<and> e_skills getDefaultSkillset = finalSkills (addDefaultSkills [])
   \<and> map (\<lambda>sk. (sk_name sk, sk_level sk, sk_confidence sk)) (e_skills getDefaultSkillset)
       = [(JString ''javascript'', ''beginner'', 0.5), (JString ''html'', ''beginner'', 0.5),
          (JString ''css'', ''beginner'', 0.5), (JString ''git'', ''beginner'', 0.5)]"
proof -
  have "\<exists>result. extractUserSkills usr repositories contributions = Inr result"
    by (simp add: extractUserSkills_def split: sum.splits)
  moreover have "\<forall>e. extractUserSkills_try usr repositories contributions = Inl e
         \<longrightarrow> extractUserSkills usr repositories contributions = Inr getDefaultSkillset"
    by (simp add: extractUserSkills_def)
  moreover have "map (\<lambda>sk. (sk_name sk, sk_level sk, sk_confidence sk)) (e_skills getDefaultSkillset)
       = [(JString ''javascript'', ''beginner'', 0.5), (JString ''html'', ''beginner'', 0.5),
          (JString ''css'', ''beginner'', 0.5), (JString ''git'', ''beginner'', 0.5)]"
    by (simp add: getDefaultSkillset_def)
  ultimately show ?thesis
    using default_is_step_4 by blast
qed

theorem extractUserSkills_never_throws_witness:
  "extractUserSkills some_user None None = Inr getDefaultSkillset"
  using extractUserSkills_never_throws [of some_user None None] absent_repositories
  by simp

section \<open>The percentages of the technology usage\<close>

lemma foldl_sum: "foldl (\<lambda>sum lang. sum + f lang) a xs = a + sum_list (map f xs)"
  for a :: nat
  by (induction xs arbitrary: a) auto

lemma total_sum:
  "totalLanguageSize languages = sum_list (map le_totalSize (map_values languages))"
  by (simp add: totalLanguageSize_def foldl_sum)

lemma final_sizes: "outputTotalSize (finalLanguages languages) = totalLanguageSize languages"
  by (simp add: outputTotalSize_def finalLanguages_def total_sum lo_size_def comp_def)

lemma final_percentage:
  "l \<in> set (finalLanguages languages) \<Longrightarrow>
     lo_percentage l =
       (if totalLanguageSize languages > 0
        then real (lo_size l) / real (totalLanguageSize languages) * 100 else 0)"
  by (auto simp: finalLanguages_def lo_size_def)

lemma sum_scaled:
  "sum_list (map (\<lambda>x. real (f x) / t * 100) xs) = real (sum_list (map f xs)) / t * 100"
  by (induction xs) (simp_all add: add_divide_distrib distrib_right)

lemma final_sum:
  "sum_list (map lo_percentage (finalLanguages languages))
     = (if totalLanguageSize languages > 0 then 100 else 0)"
proof (cases "totalLanguageSize languages > 0")
  case True
  then have "sum_list (map lo_percentage (finalLanguages languages))
      = sum_list (map (\<lambda>x. real (le_totalSize x) / real (totalLanguageSize languages) * 100)
          (map_values languages))"
    by (simp add: finalLanguages_def comp_def)
  also have "\<dots> = real (totalLanguageSize languages) / real (totalLanguageSize languages) * 100"
    by (subst sum_scaled) (simp add: total_sum)
  finally show ?thesis
    using True by simp
next
  case False
  then show ?thesis
    by (simp add: finalLanguages_def comp_def)
qed

lemma try_languages:
  "extractUserSkills_try usr repositories contributions = Inr out
     \<Longrightarrow> \<exists>languages. e_languages out = finalLanguages languages"
  by (auto simp: extractUserSkills_try_def Let_def
      split: option.splits sum.splits prod.splits if_splits)

text \<open>
  C9, as amended. In every extraction run that ends without an internal error, the
  percentage of each technology is its accumulated size divided by the total size of
  all technologies, times 100, and 0 when the total size is 0; the percentages of the
  output then sum to 100 when the total size is positive and to 0 when it is not.
\<close>

theorem extraction_percentages:
  assumes "extractUserSkills_try usr repositories contributions = Inr out"
  shows "extractUserSkills usr repositories contributions = Inr out
    \<and> (\<forall>l \<in> set (e_languages out).
          lo_percentage l =
            (if outputTotalSize (e_languages out) > 0
             then real (lo_size l) / real (outputTotalSize (e_languages out)) * 100 else 0))
    \<and> sum_list (map lo_percentage (e_languages out))
        = (if outputTotalSize (e_languages out) > 0 then 100 else 0)"
proof -
  from assms obtain languages where "e_languages out = finalLanguages languages"
    using try_languages by blast
  then show ?thesis
    using assms by (simp add: extractUserSkills_def final_sizes final_percentage final_sum)
qed

lemma two_repos_run:
  "extractUserSkills_try some_user (Some two_repos) None =
     Inr \<lparr>e_skills =
           [\<lparr>sk_name = JString ''javascript'', sk_level = ''beginner'',
             sk_confidence = 4 / 5, sk_source = ''repository''\<rparr>,
            \<lparr>sk_name = JString ''python'', sk_level = ''beginner'',
             sk_confidence = 4 / 5, sk_source = ''repository''\<rparr>],
          e_languages =
           [\<lparr>lo_name = ''JavaScript'', lo_repoCount = Some 1, lo_totalSize = Some 300,
             lo_linesOfCode = 0, lo_percentage = 75\<rparr>,
            \<lparr>lo_name = ''Python'', lo_repoCount = Some 1, lo_totalSize = Some 100,
             lo_linesOfCode = 0, lo_percentage = 25\<rparr>]\<rparr>"
  by code_simp

theorem extraction_percentages_witness:
  "\<exists>out. extractUserSkills some_user (Some two_repos) None = Inr out
     \<and> map lo_percentage (e_languages out) = [75, 25]
     \<and> outputTotalSize (e_languages out) = 400
     \<and> sum_list (map lo_percentage (e_languages out)) = 100"
  using extraction_percentages [OF two_repos_run]
  by (simp add: outputTotalSize_def lo_size_def)

text \<open>
  The claim as it stands holds for every run. A run whose \<open>try\<close> block throws returns
  the fallback list: no entry has a size, and the percentages 40, 30 and 30 sum to 100.
\<close>

theorem fallback_percentages:
  "extractUserSkills some_user (Some []) (Some [broken_event]) = Inr getDefaultSkillset
   \<and> outputTotalSize (e_languages getDefaultSkillset) = 0
   \<and> sum_list (map lo_percentage (e_languages getDefaultSkillset)) = 100
   \<and> map lo_percentage (e_languages getDefaultSkillset) = [40, 30, 30]"
  using broken_event_throws
  by (simp add: extractUserSkills_def getDefaultSkillset_def outputTotalSize_def lo_size_def)

section \<open>The run flag of the aggregation\<close>

lemma flag_inv_initial: "flag_inv initial"
  by (simp add: flag_inv_def initial_def)

lemma flag_inv_cases:
  assumes "flag_inv s"
  obtains "cycles s = []" "\<not> isRunning s"
  | r where "cycles s = [r]" "isRunning s" "1 \<le> r" "r \<le> 3"
  using assms by (cases "cycles s") (auto simp: flag_inv_def)

lemma step_flag_inv:
  assumes "flag_inv s" and "step s a = Some s'"
  shows "flag_inv s'"
  using assms(1)
proof (cases rule: flag_inv_cases)
  case 1
  with assms(2) show ?thesis
    by (cases a) (auto simp: flag_inv_def finish_def split: if_splits)
next
  case (2 r)
  with assms(2) show ?thesis
    by (cases a) (auto simp: flag_inv_def finish_def Let_def split: if_splits)
qed

lemma run_flag_inv: "flag_inv s \<Longrightarrow> run s acts = Some s' \<Longrightarrow> flag_inv s'"
proof (induction acts arbitrary: s)
  case Nil
  then show ?case by simp
next
  case (Cons a acts)
  then show ?case
    by (auto split: option.splits dest: step_flag_inv)
qed

lemma run_append: "run s (xs @ ys) = (case run s xs of None \<Rightarrow> None | Some s' \<Rightarrow> run s' ys)"
  by (induction xs arbitrary: s) (auto split: option.splits)

lemma run_calls: "cycles s \<noteq> [] \<Longrightarrow> run s (replicate k (ClientCall 0)) = Some (s\<lparr>clientCalls := clientCalls s + k\<rparr>)"
  by (induction k arbitrary: s) auto

lemma run_writes: "cycles s \<noteq> [] \<Longrightarrow> run s (replicate k (StoreWrite 0)) = Some (s\<lparr>storeWrites := storeWrites s + k\<rparr>)"
  by (induction k arbitrary: s) auto

lemma retryLoop_cycles:
  "retryLoop n env (s\<lparr>cycles := c\<rparr>) = (retryLoop n env s)\<lparr>cycles := c\<rparr>"
proof (induction n arbitrary: s)
  case 0
  then show ?case by simp
next
  case (Suc n)
  obtain f cs k w where s: "s = \<lparr>isRunning = f, cycles = cs, clientCalls = k, storeWrites = w\<rparr>"
    by (cases s)
  show ?case
    unfolding s
    using Suc.IH [of "\<lparr>isRunning = f, cycles = cs,
                      clientCalls = k + at_clientCalls (env (Suc n)),
                      storeWrites = w + at_storeWrites (env (Suc n))\<rparr>"]
    by (simp add: Let_def)
qed

lemma run_attempt:
  assumes "cycles s = [Suc n]"
  shows "run s (attempt_actions a) =
    Some (if at_ok a \<or> n = 0
          then s\<lparr>clientCalls := clientCalls s + at_clientCalls a,
                  storeWrites := storeWrites s + at_storeWrites a,
                  isRunning := False, cycles := []\<rparr>
          else s\<lparr>clientCalls := clientCalls s + at_clientCalls a,
                  storeWrites := storeWrites s + at_storeWrites a,
                  cycles := [n]\<rparr>)"
  using assms
  by (simp add: attempt_actions_def run_append run_calls run_writes finish_def Let_def)

lemma run_loop:
  "cycles s = [Suc n] \<Longrightarrow>
     run s (loop_actions (Suc n) env)
       = Some ((retryLoop (Suc n) env s)\<lparr>isRunning := False, cycles := []\<rparr>)"
proof (induction n arbitrary: s)
  case 0
  then show ?case
    by (simp add: run_append run_attempt Let_def)
next
  case (Suc n)
  let ?a = "env (Suc (Suc n))"
  let ?s1 = "s\<lparr>clientCalls := clientCalls s + at_clientCalls ?a,
               storeWrites := storeWrites s + at_storeWrites ?a\<rparr>"
  show ?case
  proof (cases "at_ok ?a")
    case True
    with Suc.prems show ?thesis
      by (simp add: run_append run_attempt Let_def)
  next
    case False
    have "run s (loop_actions (Suc (Suc n)) env)
        = run (?s1\<lparr>cycles := [Suc n]\<rparr>) (loop_actions (Suc n) env)"
      using False Suc.prems
      by (simp add: run_append run_attempt)
    also have "\<dots> = Some ((retryLoop (Suc n) env (?s1\<lparr>cycles := [Suc n]\<rparr>))
                          \<lparr>isRunning := False, cycles := []\<rparr>)"
      by (rule Suc.IH) simp
    also have "\<dots> = Some ((retryLoop (Suc (Suc n)) env s)\<lparr>isRunning := False, cycles := []\<rparr>)"
      using False by (simp add: retryLoop_cycles Let_def del: retryLoop.simps) (simp add: Let_def)
    finally show ?thesis .
  qed
qed

lemma retryLoop_flag: "isRunning (retryLoop n env s) = isRunning s \<and> cycles (retryLoop n env s) = cycles s"
  by (induction n arbitrary: s) (auto simp: Let_def)

lemma retryLoop_isRunning_update:
  "retryLoop n env (s\<lparr>isRunning := b\<rparr>) = (retryLoop n env s)\<lparr>isRunning := b\<rparr>"
proof (induction n arbitrary: s)
  case 0
  then show ?case by simp
next
  case (Suc n)
  obtain f cs k w where s: "s = \<lparr>isRunning = f, cycles = cs, clientCalls = k, storeWrites = w\<rparr>"
    by (cases s)
  show ?case
    unfolding s
    using Suc.IH [of "\<lparr>isRunning = f, cycles = cs,
                      clientCalls = k + at_clientCalls (env (Suc n)),
                      storeWrites = w + at_storeWrites (env (Suc n))\<rparr>"]
    by (simp add: Let_def)
qed

lemma call_is_run:
  assumes "\<not> isRunning s" "cycles s = []"
  shows "run s (Invoke # loop_actions 3 env) = Some (aggregateIssues env s)"
proof -
  let ?s0 = "s\<lparr>isRunning := True, cycles := [3]\<rparr>"
  have "run s (Invoke # loop_actions 3 env) = run ?s0 (loop_actions 3 env)"
    using assms by simp
  also have "\<dots> = Some ((retryLoop 3 env ?s0)\<lparr>isRunning := False, cycles := []\<rparr>)"
    using run_loop [of ?s0 2 env] by (simp add: numeral_3_eq_3)
  also have "\<dots> = Some (aggregateIssues env s)"
  proof -
    have "cycles (retryLoop 3 env s) = []"
      using retryLoop_flag [of 3 env s] assms by simp
    then have "(retryLoop 3 env s)\<lparr>isRunning := False, cycles := []\<rparr>
        = (retryLoop 3 env s)\<lparr>isRunning := False\<rparr>"
      by (cases "retryLoop 3 env s") simp
    then show ?thesis
      using assms
      by (simp add: aggregateIssues_def retryLoop_cycles retryLoop_isRunning_update Let_def
          del: retryLoop.simps)
  qed
  finally show ?thesis .
qed

text \<open>
  C4. In every state the aggregator can reach: at most one cycle is in flight; the flag
  is set exactly while a cycle is in flight; a call of \<open>aggregateIssues\<close> while the flag
  is set changes nothing, so it calls no source client and writes nothing to the store;
  when the cycle ends, by a successful attempt or by the failure of its last attempt,
  the flag is cleared and no cycle is in flight; a failed attempt that is not the last
  leaves the flag set and the cycle in flight with one attempt less; a cycle has at most
  three attempts; and a call made while the flag is clear is a run of these steps that
  leaves the flag clear, whatever the outcome of its attempts.
\<close>

theorem aggregateIssues_single_flight:
  assumes "run initial acts = Some s"
  shows "length (cycles s) \<le> 1
    \<and> (isRunning s \<longleftrightarrow> cycles s \<noteq> [])
    \<and> (isRunning s \<longrightarrow> step s Invoke = Some s)
    \<and> (\<forall>i s'. step s (Succeed i) = Some s' \<longrightarrow> \<not> isRunning s' \<and> cycles s' = [])
    \<and> (\<forall>i s'. step s (Fail i) = Some s' \<and> cycles s ! i = 1
          \<longrightarrow> \<not> isRunning s' \<and> cycles s' = [])
    \<and> (\<forall>i s'. step s (Fail i) = Some s' \<and> cycles s ! i > 1
          \<longrightarrow> isRunning s' \<and> cycles s' = [cycles s ! i - 1])
    \<and> (\<forall>r \<in> set (cycles s). 1 \<le> r \<and> r \<le> 3)
    \<and> (\<forall>env. isRunning s \<longrightarrow> aggregateIssues env s = s)
    \<and> (\<forall>env. \<not> isRunning s \<longrightarrow>
          run s (Invoke # loop_actions 3 env) = Some (aggregateIssues env s)
          \<and> \<not> isRunning (aggregateIssues env s))"
proof -
  have "flag_inv s"
    using run_flag_inv [OF flag_inv_initial assms] .
  then show ?thesis
  proof (cases rule: flag_inv_cases)
    case 1
    then show ?thesis
      using call_is_run [of s] by (simp add: aggregateIssues_def Let_def)
  next
    case (2 r)
    then show ?thesis
      by (auto simp: finish_def aggregateIssues_def Let_def split: if_splits)
  qed
qed

lemma run_to_running_state: "run initial [Invoke, ClientCall 0] = Some running_state"
  by (simp add: initial_def running_state_def)

lemma run_three_failures:
  "run running_state [Invoke, Fail 0, StoreWrite 0, Fail 0, Invoke, Fail 0]
     = Some \<lparr>isRunning = False, cycles = [], clientCalls = 1, storeWrites = 1\<rparr>"
  by (simp add: running_state_def finish_def)

theorem aggregateIssues_single_flight_witness:
  "run initial [Invoke, ClientCall 0] = Some running_state
   \<and> isRunning running_state
   \<and> length (cycles running_state) \<le> 1
   \<and> step running_state Invoke = Some running_state
   \<and> step running_state (Succeed 0)
       = Some \<lparr>isRunning = False, cycles = [], clientCalls = 1, storeWrites = 0\<rparr>
   \<and> run running_state [Invoke, Fail 0, StoreWrite 0, Fail 0, Invoke, Fail 0]
       = Some \<lparr>isRunning = False, cycles = [], clientCalls = 1, storeWrites = 1\<rparr>"
proof -
  from aggregateIssues_single_flight [OF run_to_running_state]
  have "length (cycles running_state) \<le> 1"
    and "isRunning running_state \<longrightarrow> step running_state Invoke = Some running_state"
    by blast+
  moreover have "isRunning running_state"
    by (simp add: running_state_def)
  moreover have "step running_state (Succeed 0)
       = Some \<lparr>isRunning = False, cycles = [], clientCalls = 1, storeWrites = 0\<rparr>"
    by (simp add: running_state_def finish_def)
  ultimately show ?thesis
    using run_to_running_state run_three_failures by simp
qed

end
